theory Spec2Isabelle
  imports Complex_Main
begin

section \<open>Data model of capability discovery\<close>

text \<open>
  The development embeds \<^verbatim>\<open>libdyson/capability_discovery.py\<close> and
  \<^verbatim>\<open>libdyson/dynamic_device_factory.py\<close>.

  Conventions of the embedding:
  \<^item> a Python \<^verbatim>\<open>Dict[str, Any]\<close> is a map from strings to values of type \<open>pyval\<close>;
  \<^item> a Python \<^verbatim>\<open>float\<close> is a \<open>real\<close>: the literals and the operations are those of
    the source, rounding is not modelled;
  \<^item> an \<^verbatim>\<open>Optional\<close> argument or result is an \<open>option\<close>;
  \<^item> a leading underscore of a Python name is dropped.
\<close>

text \<open>The values a decoded telemetry message can hold (\<^verbatim>\<open>Any\<close> in the source).\<close>

datatype pyval =
    PyNone
  | PyBool bool
  | PyInt int
  | PyStr string
  | PyList "pyval list"

type_synonym pydict = "string \<rightharpoonup> pyval"

text \<open>\<^verbatim>\<open>class DeviceCapability(Enum)\<close>\<close>

datatype DeviceCapability =
    BASIC_FAN_CONTROL
  | BASIC_OSCILLATION
  | NIGHT_MODE
  | SLEEP_TIMER
  | ANGLE_OSCILLATION
  | FRONT_AIRFLOW
  | AUTO_MODE
  | FILTER_MONITORING
  | PM_SENSORS
  | VOC_SENSOR
  | NO2_SENSOR
  | CO2_SENSOR
  | HUMIDITY_SENSOR
  | TEMPERATURE_SENSOR
  | HUMIDIFICATION
  | WATER_HARDNESS
  | HEATING
  | TILT_CONTROL
  | CONTINUOUS_MONITORING

text \<open>\<^verbatim>\<open>@dataclass class DeviceCapabilities\<close>\<close>

record DeviceCapabilities =
  discovered_capabilities :: "DeviceCapability set"
  status_fields :: "string set"
  environmental_fields :: "string set"
  device_type_hint :: "string option"
  confidence_score :: real

definition has_capability :: "DeviceCapabilities \<Rightarrow> DeviceCapability \<Rightarrow> bool" where
  "has_capability self capability \<longleftrightarrow> capability \<in> discovered_capabilities self"

definition has_any_capability :: "DeviceCapabilities \<Rightarrow> DeviceCapability list \<Rightarrow> bool" where
  "has_any_capability self capabilities \<longleftrightarrow>
     discovered_capabilities self \<inter> set capabilities \<noteq> {}"

definition has_all_capabilities :: "DeviceCapabilities \<Rightarrow> DeviceCapability list \<Rightarrow> bool" where
  "has_all_capabilities self capabilities \<longleftrightarrow>
     set capabilities \<subseteq> discovered_capabilities self"

section \<open>Detectors\<close>

text \<open>
  \<^verbatim>\<open>_has_field\<close>: \<^verbatim>\<open>field in data and data[field] is not None\<close>. Every detector class
  carries its own copy of this method, all with the same body; \<^verbatim>\<open>_has_fields\<close> is
  \<^verbatim>\<open>all(self._has_field(data, field) for field in fields)\<close>.
\<close>

definition has_field :: "pydict \<Rightarrow> string \<Rightarrow> bool" where
  "has_field data field =
     (case data field of None \<Rightarrow> False | Some v \<Rightarrow> v \<noteq> PyNone)"

definition has_fields :: "pydict \<Rightarrow> string list \<Rightarrow> bool" where
  "has_fields data field_names = list_all (has_field data) field_names"

subsection \<open>\<^verbatim>\<open>BasicFanDetector\<close>\<close>

definition BasicFanDetector_detect :: "pydict \<Rightarrow> pydict \<Rightarrow> DeviceCapability set" where
  "BasicFanDetector_detect status_data environmental_data =
     (let capabilities = {};
          capabilities = (if has_fields status_data [''fpwr'', ''fnsp'']
                          then insert BASIC_FAN_CONTROL capabilities else capabilities);
          capabilities = (if has_field status_data ''oson''
                          then insert BASIC_OSCILLATION capabilities else capabilities);
          capabilities = (if has_fields status_data [''nmod'', ''nmdv'']
                          then insert NIGHT_MODE capabilities else capabilities);
          capabilities = (if has_field status_data ''sltm''
                          then insert SLEEP_TIMER capabilities else capabilities)
      in capabilities)"

definition BasicFanDetector_get_required_fields :: "string set" where
  "BasicFanDetector_get_required_fields =
     {''fpwr'', ''fnsp'', ''oson'', ''nmod'', ''nmdv'', ''sltm''}"

definition BasicFanDetector_get_confidence_score :: "pydict \<Rightarrow> pydict \<Rightarrow> real" where
  "BasicFanDetector_get_confidence_score status_data environmental_data =
     (let basic_fields = [''fpwr'', ''fnsp''];
          oscillation_field = ''oson'';
          confidence = 0;
          confidence = (if list_all (has_field status_data) basic_fields
                        then confidence + 0.8 else confidence);
          confidence = (if has_field status_data oscillation_field
                        then confidence + 0.15 else confidence);
          confidence = (if has_field status_data ''sltm''
                        then confidence + 0.05 else confidence)
      in min 1.0 confidence)"

subsection \<open>\<^verbatim>\<open>AdvancedOscillationDetector\<close>\<close>

definition AdvancedOscillationDetector_detect :: "pydict \<Rightarrow> pydict \<Rightarrow> DeviceCapability set" where
  "AdvancedOscillationDetector_detect status_data environmental_data =
     (let capabilities = {};
          capabilities = (if has_fields status_data [''osal'', ''osau'']
                          then insert ANGLE_OSCILLATION capabilities else capabilities)
      in capabilities)"

definition AdvancedOscillationDetector_get_required_fields :: "string set" where
  "AdvancedOscillationDetector_get_required_fields = {''osal'', ''osau'', ''ancp''}"

definition AdvancedOscillationDetector_get_confidence_score :: "pydict \<Rightarrow> pydict \<Rightarrow> real" where
  "AdvancedOscillationDetector_get_confidence_score status_data environmental_data =
     (let angle_fields = [''osal'', ''osau'']
      in if has_fields status_data angle_fields then 0.95
         else if list_ex (has_field status_data) angle_fields then 0.5
         else 0.0)"

subsection \<open>\<^verbatim>\<open>PurificationDetector\<close>\<close>

definition PurificationDetector_detect :: "pydict \<Rightarrow> pydict \<Rightarrow> DeviceCapability set" where
  "PurificationDetector_detect status_data environmental_data =
     (let capabilities = {};
          capabilities = (if has_field status_data ''auto''
                          then insert AUTO_MODE capabilities else capabilities);
          capabilities = (if has_field status_data ''cflr'' \<or> has_field status_data ''hflr''
                          then insert FILTER_MONITORING capabilities else capabilities);
          pm_fields = [''p25r'', ''p10r'', ''pm25'', ''pm10''];
          capabilities = (if list_ex (has_field environmental_data) pm_fields
                          then insert PM_SENSORS capabilities else capabilities);
          capabilities = (if has_field status_data ''fdir''
                          then insert FRONT_AIRFLOW capabilities else capabilities)
      in capabilities)"

definition PurificationDetector_get_required_fields :: "string set" where
  "PurificationDetector_get_required_fields =
     {''auto'', ''cflr'', ''hflr'', ''fdir'', ''p25r'', ''p10r'', ''pm25'', ''pm10''}"

definition PurificationDetector_get_confidence_score :: "pydict \<Rightarrow> pydict \<Rightarrow> real" where
  "PurificationDetector_get_confidence_score status_data environmental_data =
     (let confidence = 0;
          confidence = (if has_field status_data ''auto''
                        then confidence + 0.4 else confidence);
          confidence = (if has_field status_data ''cflr'' \<or> has_field status_data ''hflr''
                        then confidence + 0.4 else confidence);
          pm_fields = [''pm25'', ''pm10'', ''p25r'', ''p10r''];
          confidence = (if list_ex (has_field environmental_data) pm_fields
                        then confidence + 0.3 else confidence);
          confidence = (if has_field status_data ''fdir''
                        then confidence + 0.1 else confidence)
      in min 1.0 confidence)"

subsection \<open>\<^verbatim>\<open>AdvancedEnvironmentalDetector\<close>\<close>

definition AdvancedEnvironmentalDetector_detect :: "pydict \<Rightarrow> pydict \<Rightarrow> DeviceCapability set" where
  "AdvancedEnvironmentalDetector_detect status_data environmental_data =
     (let capabilities = {};
          capabilities = (if has_field environmental_data ''va10''
                          then insert VOC_SENSOR capabilities else capabilities);
          capabilities = (if has_field environmental_data ''noxl''
                          then insert NO2_SENSOR capabilities else capabilities);
          capabilities = (if has_field environmental_data ''co2r''
                          then insert CO2_SENSOR capabilities else capabilities);
          capabilities = (if has_field environmental_data ''hact''
                          then insert HUMIDITY_SENSOR capabilities else capabilities);
          capabilities = (if has_field environmental_data ''tact''
                          then insert TEMPERATURE_SENSOR capabilities else capabilities)
      in capabilities)"

definition AdvancedEnvironmentalDetector_get_required_fields :: "string set" where
  "AdvancedEnvironmentalDetector_get_required_fields =
     {''va10'', ''noxl'', ''co2r'', ''hact'', ''tact''}"

text \<open>
  \<^verbatim>\<open>detected_count / len(advanced_fields)\<close> is Python's true division of two integers;
  the divisor is the length of a three-element literal.
\<close>

definition AdvancedEnvironmentalDetector_get_confidence_score :: "pydict \<Rightarrow> pydict \<Rightarrow> real" where
  "AdvancedEnvironmentalDetector_get_confidence_score status_data environmental_data =
     (let advanced_fields = [''va10'', ''noxl'', ''co2r''];
          detected_count = length (filter (has_field environmental_data) advanced_fields)
      in real detected_count / real (length advanced_fields))"

subsection \<open>\<^verbatim>\<open>HeatingDetector\<close>\<close>

definition HeatingDetector_detect :: "pydict \<Rightarrow> pydict \<Rightarrow> DeviceCapability set" where
  "HeatingDetector_detect status_data environmental_data =
     (let capabilities = {};
          capabilities = (if has_field status_data ''hmod''
                          then insert HEATING capabilities else capabilities)
      in capabilities)"

definition HeatingDetector_get_required_fields :: "string set" where
  "HeatingDetector_get_required_fields = {''hmod'', ''hmax''}"

definition HeatingDetector_get_confidence_score :: "pydict \<Rightarrow> pydict \<Rightarrow> real" where
  "HeatingDetector_get_confidence_score status_data environmental_data =
     (if has_field status_data ''hmod'' then 1.0 else 0.0)"

subsection \<open>\<^verbatim>\<open>HumidificationDetector\<close>\<close>

definition HumidificationDetector_detect :: "pydict \<Rightarrow> pydict \<Rightarrow> DeviceCapability set" where
  "HumidificationDetector_detect status_data environmental_data =
     (let capabilities = {};
          capabilities = (if has_field status_data ''hume''
                          then insert HUMIDIFICATION capabilities else capabilities);
          capabilities = (if has_field status_data ''wath''
                          then insert WATER_HARDNESS capabilities else capabilities)
      in capabilities)"

definition HumidificationDetector_get_required_fields :: "string set" where
  "HumidificationDetector_get_required_fields = {''hume'', ''haut'', ''humt'', ''wath''}"

definition HumidificationDetector_get_confidence_score :: "pydict \<Rightarrow> pydict \<Rightarrow> real" where
  "HumidificationDetector_get_confidence_score status_data environmental_data =
     (if has_field status_data ''hume'' then 1.0 else 0.0)"

subsection \<open>The detector contract\<close>

text \<open>
  The subclasses of the abstract \<^verbatim>\<open>CapabilityDetector\<close>; a method call on a detector
  object dispatches on its class. \<open>class_name\<close> is \<^verbatim>\<open>detector.__class__.__name__\<close>.
\<close>

datatype CapabilityDetector =
    BasicFanDetector
  | AdvancedOscillationDetector
  | PurificationDetector
  | AdvancedEnvironmentalDetector
  | HeatingDetector
  | HumidificationDetector

fun class_name :: "CapabilityDetector \<Rightarrow> string" where
  "class_name BasicFanDetector = ''BasicFanDetector''"
| "class_name AdvancedOscillationDetector = ''AdvancedOscillationDetector''"
| "class_name PurificationDetector = ''PurificationDetector''"
| "class_name AdvancedEnvironmentalDetector = ''AdvancedEnvironmentalDetector''"
| "class_name HeatingDetector = ''HeatingDetector''"
| "class_name HumidificationDetector = ''HumidificationDetector''"

fun detect :: "CapabilityDetector \<Rightarrow> pydict \<Rightarrow> pydict \<Rightarrow> DeviceCapability set" where
  "detect BasicFanDetector = BasicFanDetector_detect"
| "detect AdvancedOscillationDetector = AdvancedOscillationDetector_detect"
| "detect PurificationDetector = PurificationDetector_detect"
| "detect AdvancedEnvironmentalDetector = AdvancedEnvironmentalDetector_detect"
| "detect HeatingDetector = HeatingDetector_detect"
| "detect HumidificationDetector = HumidificationDetector_detect"

fun get_required_fields :: "CapabilityDetector \<Rightarrow> string set" where
  "get_required_fields BasicFanDetector = BasicFanDetector_get_required_fields"
| "get_required_fields AdvancedOscillationDetector =
     AdvancedOscillationDetector_get_required_fields"
| "get_required_fields PurificationDetector = PurificationDetector_get_required_fields"
| "get_required_fields AdvancedEnvironmentalDetector =
     AdvancedEnvironmentalDetector_get_required_fields"
| "get_required_fields HeatingDetector = HeatingDetector_get_required_fields"
| "get_required_fields HumidificationDetector = HumidificationDetector_get_required_fields"

fun get_confidence_score :: "CapabilityDetector \<Rightarrow> pydict \<Rightarrow> pydict \<Rightarrow> real" where
  "get_confidence_score BasicFanDetector = BasicFanDetector_get_confidence_score"
| "get_confidence_score AdvancedOscillationDetector =
     AdvancedOscillationDetector_get_confidence_score"
| "get_confidence_score PurificationDetector = PurificationDetector_get_confidence_score"
| "get_confidence_score AdvancedEnvironmentalDetector =
     AdvancedEnvironmentalDetector_get_confidence_score"
| "get_confidence_score HeatingDetector = HeatingDetector_get_confidence_score"
| "get_confidence_score HumidificationDetector = HumidificationDetector_get_confidence_score"

section \<open>The discovery aggregator\<close>

text \<open>
  One entry of \<^verbatim>\<open>detector_results\<close>, the dictionary with the keys
  \<^verbatim>\<open>"detector"\<close>, \<^verbatim>\<open>"capabilities"\<close>, \<^verbatim>\<open>"confidence"\<close> and \<^verbatim>\<open>"is_relevant"\<close>.
\<close>

record detector_result =
  res_detector :: string
  res_capabilities :: "DeviceCapability set"
  res_confidence :: real
  res_is_relevant :: bool

text \<open>\<^verbatim>\<open>self.detectors\<close>, as \<^verbatim>\<open>DeviceCapabilityDiscovery.__init__\<close> sets it.\<close>

definition detectors :: "CapabilityDetector list" where
  "detectors =
     [BasicFanDetector, AdvancedOscillationDetector, PurificationDetector,
      AdvancedEnvironmentalDetector, HeatingDetector, HumidificationDetector]"

text \<open>\<^verbatim>\<open>_suggest_device_type\<close>; a set is true in a condition when it is not empty.\<close>

definition suggest_device_type :: "DeviceCapability set \<Rightarrow> string" where
  "suggest_device_type capabilities =
     (if capabilities \<inter> {VOC_SENSOR, NO2_SENSOR, CO2_SENSOR} \<noteq> {} then
        (if HEATING \<in> capabilities then ''AdvancedPurifierFanWithHeating''
         else if HUMIDIFICATION \<in> capabilities then ''AdvancedPurifierFanWithHumidification''
         else ''AdvancedPurifierFan'')
      else if HEATING \<in> capabilities \<and> AUTO_MODE \<in> capabilities then
        ''BasicPurifierFanWithHeating''
      else if HUMIDIFICATION \<in> capabilities \<and> AUTO_MODE \<in> capabilities then
        ''BasicPurifierFanWithHumidification''
      else if capabilities \<inter> {AUTO_MODE, FILTER_MONITORING} \<noteq> {} then
        (if ANGLE_OSCILLATION \<in> capabilities then ''BasicPurifierFanWithOscillation''
         else ''BasicPurifierFan'')
      else if ANGLE_OSCILLATION \<in> capabilities then ''AdvancedOscillationFan''
      else if BASIC_FAN_CONTROL \<in> capabilities then ''BasicFan''
      else ''UnknownDevice'')"

text \<open>\<^verbatim>\<open>_calculate_coherence_bonus\<close>\<close>

definition calculate_coherence_bonus :: "DeviceCapability set \<Rightarrow> real" where
  "calculate_coherence_bonus capabilities =
     (let bonus = 0.0;
          bonus = (if {BASIC_FAN_CONTROL, BASIC_OSCILLATION} \<subseteq> capabilities
                   then bonus + 0.1 else bonus);
          bonus = (if {AUTO_MODE, FILTER_MONITORING, PM_SENSORS} \<subseteq> capabilities
                   then bonus + 0.15 else bonus);
          advanced_sensors = {VOC_SENSOR, NO2_SENSOR, CO2_SENSOR};
          bonus = (if card (advanced_sensors \<inter> capabilities) \<ge> 2
                   then bonus + 0.2 else bonus);
          bonus = (if HEATING \<in> capabilities \<and> AUTO_MODE \<in> capabilities
                   then bonus + 0.15 else bonus);
          bonus = (if HUMIDIFICATION \<in> capabilities \<and> HUMIDITY_SENSOR \<in> capabilities
                   then bonus + 0.15 else bonus);
          bonus = (if ANGLE_OSCILLATION \<in> capabilities
                   then (if AUTO_MODE \<notin> capabilities then bonus + 0.2 else bonus)
                   else bonus);
          environmental_sensors = {HUMIDITY_SENSOR, TEMPERATURE_SENSOR};
          bonus = (if environmental_sensors \<subseteq> capabilities
                   then bonus + 0.1 else bonus)
      in min 0.3 bonus)"

text \<open>
  The weight the loop of \<^verbatim>\<open>_calculate_intelligent_confidence\<close> assigns to a result, from
  its detector's class name and \<^verbatim>\<open>capabilities_found = len(result["capabilities"])\<close>.
\<close>

definition detector_weight :: "string \<Rightarrow> nat \<Rightarrow> real" where
  "detector_weight detector_name capabilities_found =
     (if detector_name = ''BasicFanDetector'' then
        (if capabilities_found > 0 then 3.0 else 1.0)
      else if detector_name = ''AdvancedOscillationDetector'' then
        (if capabilities_found > 0 then 2.5 else 0.5)
      else if detector_name = ''PurificationDetector'' then
        (if capabilities_found > 0 then 3.0 else 1.0)
      else if detector_name = ''AdvancedEnvironmentalDetector'' then
        (if capabilities_found > 0 then 2.5 else 0.5)
      else if detector_name \<in> set [''HeatingDetector'', ''HumidificationDetector''] then
        (if capabilities_found > 0 then 2.0 else 0.5)
      else 1.0)"

text \<open>
  The body of the loop over \<^verbatim>\<open>relevant_results\<close>; the state is the pair
  \<^verbatim>\<open>(total_weighted_confidence, total_weight)\<close>.
\<close>

definition confidence_step :: "detector_result \<Rightarrow> real \<times> real \<Rightarrow> real \<times> real" where
  "confidence_step result acc =
     (let total_weighted_confidence = fst acc;
          total_weight = snd acc;
          detector_name = res_detector result;
          confidence = res_confidence result;
          capabilities_found = card (res_capabilities result);
          weight = detector_weight detector_name capabilities_found;
          weighted_confidence = confidence * weight
      in (total_weighted_confidence + weighted_confidence, total_weight + weight))"

text \<open>\<^verbatim>\<open>_calculate_intelligent_confidence\<close>\<close>

definition calculate_intelligent_confidence ::
  "detector_result list \<Rightarrow> DeviceCapability set \<Rightarrow> real" where
  "calculate_intelligent_confidence detector_results all_capabilities =
     (if detector_results = [] then 0.0
      else
        let relevant_results = filter res_is_relevant detector_results
        in if relevant_results = [] then 0.0
           else
             let totals = fold confidence_step relevant_results (0.0, 0.0);
                 total_weighted_confidence = fst totals;
                 total_weight = snd totals;
                 base_confidence =
                   (if total_weight > 0 then total_weighted_confidence / total_weight
                    else 0.0);
                 coherence_bonus = calculate_coherence_bonus all_capabilities;
                 final_confidence = min 1.0 (base_confidence + coherence_bonus)
             in final_confidence)"

text \<open>
  The body of the loop over \<^verbatim>\<open>self.detectors\<close> in \<^verbatim>\<open>discover_capabilities\<close>; the state
  is the pair \<^verbatim>\<open>(detector_results, all_capabilities)\<close>. The \<^verbatim>\<open>try\<close> block catches what a
  detector raises; on two dictionaries no detector raises (a detector only tests
  membership of a string key and compares the stored value with \<^verbatim>\<open>None\<close>), so the
  \<^verbatim>\<open>except\<close> branch has no counterpart here.
\<close>

definition discover_step ::
  "pydict \<Rightarrow> pydict \<Rightarrow> CapabilityDetector \<Rightarrow>
   detector_result list \<times> DeviceCapability set \<Rightarrow>
   detector_result list \<times> DeviceCapability set" where
  "discover_step status_data environmental_data detector acc =
     (let detector_results = fst acc;
          all_capabilities = snd acc;
          capabilities = detect detector status_data environmental_data;
          confidence = get_confidence_score detector status_data environmental_data
      in (detector_results @
            [\<lparr>res_detector = class_name detector,
              res_capabilities = capabilities,
              res_confidence = confidence,
              res_is_relevant = (card capabilities > 0 \<or> confidence > 0.0)\<rparr>],
          all_capabilities \<union> capabilities))"

text \<open>\<^verbatim>\<open>discover_capabilities\<close>; a dictionary is true in a condition when it is not empty.\<close>

definition discover_capabilities :: "pydict \<Rightarrow> pydict \<Rightarrow> DeviceCapabilities" where
  "discover_capabilities status_data environmental_data =
     (let found = fold (discover_step status_data environmental_data) detectors ([], {});
          detector_results = fst found;
          all_capabilities = snd found;
          overall_confidence =
            calculate_intelligent_confidence detector_results all_capabilities;
          hint = suggest_device_type all_capabilities
      in \<lparr>discovered_capabilities = all_capabilities,
          status_fields = (if status_data \<noteq> Map.empty then dom status_data else {}),
          environmental_fields =
            (if environmental_data \<noteq> Map.empty then dom environmental_data else {}),
          device_type_hint = Some hint,
          confidence_score = overall_confidence\<rparr>)"

section \<open>The device factory\<close>

text \<open>
  The six device classes the factory instantiates. Their common base class
  \<^verbatim>\<open>DysonDevice\<close> is not part of the sources at hand; a device object is the record of
  its class, of the three constructor arguments and of the attribute
  \<^verbatim>\<open>_discovered_capabilities\<close> the factory may attach. A device object is true in a
  condition.
\<close>

datatype DeviceClass =
    DysonAdvancedPurifierFan
  | DysonBasicPurifierFanWithHeating
  | DysonBasicPurifierFanWithHumidification
  | DysonBasicPurifierFanWithOscillation
  | DysonAdvancedOscillationFan
  | DysonBasicFan

record DysonDevice =
  device_class :: DeviceClass
  dev_serial :: string
  dev_credential :: string
  dev_device_type :: string
  dev_discovered_capabilities :: "DeviceCapabilities option"

definition new_device :: "DeviceClass \<Rightarrow> string \<Rightarrow> string \<Rightarrow> string \<Rightarrow> DysonDevice" where
  "new_device cls serial credential device_type =
     \<lparr>device_class = cls, dev_serial = serial, dev_credential = credential,
      dev_device_type = device_type, dev_discovered_capabilities = None\<rparr>"

text \<open>\<^verbatim>\<open>str.startswith\<close>\<close>

definition startswith :: "string \<Rightarrow> string \<Rightarrow> bool" where
  "startswith s p \<longleftrightarrow> take (length p) s = p"

text \<open>\<^verbatim>\<open>DynamicDeviceFactory._create_device_from_capabilities\<close> (the private method).\<close>

definition priv_create_device_from_capabilities ::
  "string \<Rightarrow> string \<Rightarrow> string \<Rightarrow> DeviceCapabilities \<Rightarrow> DysonDevice option" where
  "priv_create_device_from_capabilities serial credential device_type capabilities =
     (if has_any_capability capabilities [VOC_SENSOR, NO2_SENSOR, CO2_SENSOR] then
        Some (new_device DysonAdvancedPurifierFan serial credential device_type)
      else if has_capability capabilities AUTO_MODE
              \<and> has_capability capabilities FILTER_MONITORING
              \<and> has_capability capabilities HEATING then
        Some (new_device DysonBasicPurifierFanWithHeating serial credential device_type)
      else if has_capability capabilities AUTO_MODE
              \<and> has_capability capabilities FILTER_MONITORING
              \<and> has_capability capabilities HUMIDIFICATION then
        Some (new_device DysonBasicPurifierFanWithHumidification serial credential device_type)
      else if has_capability capabilities AUTO_MODE
              \<and> has_capability capabilities FILTER_MONITORING then
        Some (new_device DysonBasicPurifierFanWithOscillation serial credential device_type)
      else if has_capability capabilities ANGLE_OSCILLATION
              \<and> \<not> has_capability capabilities AUTO_MODE then
        Some (new_device DysonAdvancedOscillationFan serial credential device_type)
      else if has_capability capabilities BASIC_FAN_CONTROL then
        Some (new_device DysonBasicFan serial credential device_type)
      else None)"

text \<open>\<^verbatim>\<open>_fallback_to_static_mapping\<close>\<close>

definition fallback_to_static_mapping ::
  "string \<Rightarrow> string \<Rightarrow> string \<Rightarrow> DysonDevice option" where
  "fallback_to_static_mapping serial credential device_type =
     (if startswith device_type ''739'' then
        Some (new_device DysonAdvancedOscillationFan serial credential device_type)
      else if startswith device_type ''438'' then
        Some (new_device DysonBasicPurifierFanWithOscillation serial credential device_type)
      else if startswith device_type ''527'' then
        Some (new_device DysonBasicPurifierFanWithHeating serial credential device_type)
      else if startswith device_type ''358'' then
        Some (new_device DysonBasicPurifierFanWithHumidification serial credential device_type)
      else if startswith device_type ''664'' then
        Some (new_device DysonAdvancedPurifierFan serial credential device_type)
      else None)"

text \<open>
  The truth value of an optional dictionary (\<^verbatim>\<open>None\<close> and \<^verbatim>\<open>{}\<close> are false) and
  \<^verbatim>\<open>data or {}\<close>.
\<close>

definition truthy :: "pydict option \<Rightarrow> bool" where
  "truthy data = (case data of None \<Rightarrow> False | Some d \<Rightarrow> d \<noteq> Map.empty)"

definition or_empty :: "pydict option \<Rightarrow> pydict" where
  "or_empty data = (if truthy data then the data else Map.empty)"

text \<open>\<^verbatim>\<open>DynamicDeviceFactory.create_device_from_capabilities\<close> (the public method).\<close>

definition create_device_from_capabilities ::
  "string \<Rightarrow> string \<Rightarrow> string \<Rightarrow> pydict option \<Rightarrow> pydict option \<Rightarrow> DysonDevice option" where
  "create_device_from_capabilities serial credential device_type status_data environmental_data =
     (if \<not> truthy status_data \<and> \<not> truthy environmental_data then
        fallback_to_static_mapping serial credential device_type
      else
        let capabilities =
              discover_capabilities (or_empty status_data) (or_empty environmental_data);
            device_instance =
              priv_create_device_from_capabilities serial credential device_type capabilities
        in case device_instance of
             Some device \<Rightarrow> Some (device\<lparr>dev_discovered_capabilities := Some capabilities\<rparr>)
           | None \<Rightarrow> fallback_to_static_mapping serial credential device_type)"

section \<open>The specification's reading of the aggregate confidence\<close>

text \<open>
  The entry a detector contributes to \<^verbatim>\<open>detector_results\<close>, and the weight the
  confidence loop gives to such an entry; both only name terms of the source.
\<close>

definition result_of :: "pydict \<Rightarrow> pydict \<Rightarrow> CapabilityDetector \<Rightarrow> detector_result" where
  "result_of status_data environmental_data d =
     \<lparr>res_detector = class_name d,
      res_capabilities = detect d status_data environmental_data,
      res_confidence = get_confidence_score d status_data environmental_data,
      res_is_relevant = (detect d status_data environmental_data \<noteq> {}
         \<or> get_confidence_score d status_data environmental_data > 0)\<rparr>"

definition result_weight :: "detector_result \<Rightarrow> real" where
  "result_weight r = detector_weight (res_detector r) (card (res_capabilities r))"

text \<open>Every field name some detector declares in \<^verbatim>\<open>get_required_fields\<close>.\<close>

definition all_required_fields :: "string set" where
  "all_required_fields = (\<Union>d\<in>set detectors. get_required_fields d)"

text \<open>
  The weight table as the specification gives it: per detector the weight when it found
  at least one tag and the weight when it found none; a detector that is not in the table
  weighs 1.0 either way.
\<close>

definition spec_weight_table :: "(string \<times> real \<times> real) list" where
  "spec_weight_table =
     [(''BasicFanDetector'', 3.0, 1.0),
      (''AdvancedOscillationDetector'', 2.5, 0.5),
      (''PurificationDetector'', 3.0, 1.0),
      (''AdvancedEnvironmentalDetector'', 2.5, 0.5),
      (''HeatingDetector'', 2.0, 0.5),
      (''HumidificationDetector'', 2.0, 0.5)]"

definition spec_weight :: "string \<Rightarrow> bool \<Rightarrow> real" where
  "spec_weight name productive =
     (case map_of spec_weight_table name of
        Some (high, low) \<Rightarrow> (if productive then high else low)
      | None \<Rightarrow> 1.0)"

text \<open>A detector is relevant when it reported at least one tag or a confidence above 0.\<close>

definition spec_relevant :: "pydict \<Rightarrow> pydict \<Rightarrow> CapabilityDetector \<Rightarrow> bool" where
  "spec_relevant status_data environmental_data d \<longleftrightarrow>
     detect d status_data environmental_data \<noteq> {}
     \<or> get_confidence_score d status_data environmental_data > 0"

definition spec_detector_weight :: "pydict \<Rightarrow> pydict \<Rightarrow> CapabilityDetector \<Rightarrow> real" where
  "spec_detector_weight status_data environmental_data d =
     spec_weight (class_name d) (detect d status_data environmental_data \<noteq> {})"

text \<open>
  The six shipped detectors as the specification lists them: what each detects, its
  confidence, its weight when it found at least one tag and its weight when it found none.
\<close>

record spec_detector =
  sd_detect :: "pydict \<Rightarrow> pydict \<Rightarrow> DeviceCapability set"
  sd_confidence :: "pydict \<Rightarrow> pydict \<Rightarrow> real"
  sd_weight_productive :: real
  sd_weight_unproductive :: real

definition spec_detector_table :: "spec_detector list" where
  "spec_detector_table =
     [\<lparr>sd_detect = BasicFanDetector_detect,
       sd_confidence = BasicFanDetector_get_confidence_score,
       sd_weight_productive = 3.0, sd_weight_unproductive = 1.0\<rparr>,
      \<lparr>sd_detect = AdvancedOscillationDetector_detect,
       sd_confidence = AdvancedOscillationDetector_get_confidence_score,
       sd_weight_productive = 2.5, sd_weight_unproductive = 0.5\<rparr>,
      \<lparr>sd_detect = PurificationDetector_detect,
       sd_confidence = PurificationDetector_get_confidence_score,
       sd_weight_productive = 3.0, sd_weight_unproductive = 1.0\<rparr>,
      \<lparr>sd_detect = AdvancedEnvironmentalDetector_detect,
       sd_confidence = AdvancedEnvironmentalDetector_get_confidence_score,
       sd_weight_productive = 2.5, sd_weight_unproductive = 0.5\<rparr>,
      \<lparr>sd_detect = HeatingDetector_detect,
       sd_confidence = HeatingDetector_get_confidence_score,
       sd_weight_productive = 2.0, sd_weight_unproductive = 0.5\<rparr>,
      \<lparr>sd_detect = HumidificationDetector_detect,
       sd_confidence = HumidificationDetector_get_confidence_score,
       sd_weight_productive = 2.0, sd_weight_unproductive = 0.5\<rparr>]"

text \<open>A listed detector is relevant when it reported at least one tag or a confidence above 0.\<close>

definition spec_entry_relevant :: "pydict \<Rightarrow> pydict \<Rightarrow> spec_detector \<Rightarrow> bool" where
  "spec_entry_relevant status_data environmental_data e \<longleftrightarrow>
     sd_detect e status_data environmental_data \<noteq> {}
     \<or> sd_confidence e status_data environmental_data > 0"

definition spec_entry_weight :: "pydict \<Rightarrow> pydict \<Rightarrow> spec_detector \<Rightarrow> real" where
  "spec_entry_weight status_data environmental_data e =
     (if sd_detect e status_data environmental_data \<noteq> {}
      then sd_weight_productive e else sd_weight_unproductive e)"

text \<open>
  The weighted mean over the relevant detectors of the list. With no relevant detector both
  sums are empty and the mean is taken to be 0, so that no division by zero is read as a
  value.
\<close>

definition spec_base :: "pydict \<Rightarrow> pydict \<Rightarrow> real" where
  "spec_base status_data environmental_data =
     (let relevant = filter (spec_entry_relevant status_data environmental_data)
                       spec_detector_table
      in if relevant = [] then 0
         else (\<Sum>e\<leftarrow>relevant. sd_confidence e status_data environmental_data
                               * spec_entry_weight status_data environmental_data e)
              / (\<Sum>e\<leftarrow>relevant. spec_entry_weight status_data environmental_data e))"

text \<open>The tags of a pair of maps: the union of what the six detectors detect.\<close>

definition spec_tags :: "pydict \<Rightarrow> pydict \<Rightarrow> DeviceCapability set" where
  "spec_tags status_data environmental_data =
     BasicFanDetector_detect status_data environmental_data
     \<union> AdvancedOscillationDetector_detect status_data environmental_data
     \<union> PurificationDetector_detect status_data environmental_data
     \<union> AdvancedEnvironmentalDetector_detect status_data environmental_data
     \<union> HeatingDetector_detect status_data environmental_data
     \<union> HumidificationDetector_detect status_data environmental_data"

text \<open>
  The table entry that belongs to a detector object of the source: its two methods and the
  weights the table gives under its class name.
\<close>

definition spec_entry_of :: "CapabilityDetector \<Rightarrow> spec_detector" where
  "spec_entry_of d =
     \<lparr>sd_detect = detect d, sd_confidence = get_confidence_score d,
      sd_weight_productive = spec_weight (class_name d) True,
      sd_weight_unproductive = spec_weight (class_name d) False\<rparr>"

text \<open>The coherence rules, each additive, the sum capped at 0.30.\<close>

definition spec_bonus :: "DeviceCapability set \<Rightarrow> real" where
  "spec_bonus caps =
     min 0.30
       ((if BASIC_FAN_CONTROL \<in> caps \<and> BASIC_OSCILLATION \<in> caps then 0.10 else 0)
      + (if AUTO_MODE \<in> caps \<and> FILTER_MONITORING \<in> caps \<and> PM_SENSORS \<in> caps then 0.15 else 0)
      + (if (VOC_SENSOR \<in> caps \<and> NO2_SENSOR \<in> caps)
            \<or> (VOC_SENSOR \<in> caps \<and> CO2_SENSOR \<in> caps)
            \<or> (NO2_SENSOR \<in> caps \<and> CO2_SENSOR \<in> caps) then 0.20 else 0)
      + (if HEATING \<in> caps \<and> AUTO_MODE \<in> caps then 0.15 else 0)
      + (if HUMIDIFICATION \<in> caps \<and> HUMIDITY_SENSOR \<in> caps then 0.15 else 0)
      + (if ANGLE_OSCILLATION \<in> caps \<and> AUTO_MODE \<notin> caps then 0.20 else 0)
      + (if HUMIDITY_SENSOR \<in> caps \<and> TEMPERATURE_SENSOR \<in> caps then 0.10 else 0))"

section \<open>The specification's rule lists, presence test and prefix table\<close>

text \<open>
  The factory's selection as the specification states it: an ordered list of rules, each a
  condition on the capability set and the variant it selects; the first rule whose
  condition holds wins, and no rule means no match.
\<close>

definition spec_select_rules :: "((DeviceCapability set \<Rightarrow> bool) \<times> DeviceClass) list" where
  "spec_select_rules =
     [(\<lambda>caps. VOC_SENSOR \<in> caps \<or> NO2_SENSOR \<in> caps \<or> CO2_SENSOR \<in> caps,
         DysonAdvancedPurifierFan),
      (\<lambda>caps. AUTO_MODE \<in> caps \<and> FILTER_MONITORING \<in> caps \<and> HEATING \<in> caps,
         DysonBasicPurifierFanWithHeating),
      (\<lambda>caps. AUTO_MODE \<in> caps \<and> FILTER_MONITORING \<in> caps \<and> HUMIDIFICATION \<in> caps,
         DysonBasicPurifierFanWithHumidification),
      (\<lambda>caps. AUTO_MODE \<in> caps \<and> FILTER_MONITORING \<in> caps,
         DysonBasicPurifierFanWithOscillation),
      (\<lambda>caps. ANGLE_OSCILLATION \<in> caps \<and> AUTO_MODE \<notin> caps,
         DysonAdvancedOscillationFan),
      (\<lambda>caps. BASIC_FAN_CONTROL \<in> caps,
         DysonBasicFan)]"

definition spec_select :: "DeviceCapability set \<Rightarrow> DeviceClass option" where
  "spec_select caps = map_option snd (find (\<lambda>rule. fst rule caps) spec_select_rules)"

text \<open>
  The device-type hint as the specification states it: an ordered list of rules, the first
  match wins, and no match gives the sentinel \<open>''UnknownDevice''\<close>.
\<close>

definition spec_hint_rules ::
  "((DeviceCapability set \<Rightarrow> bool) \<times> (DeviceCapability set \<Rightarrow> string)) list" where
  "spec_hint_rules =
     [(\<lambda>caps. VOC_SENSOR \<in> caps \<or> NO2_SENSOR \<in> caps \<or> CO2_SENSOR \<in> caps,
         \<lambda>caps. if HEATING \<in> caps then ''AdvancedPurifierFanWithHeating''
                else if HUMIDIFICATION \<in> caps then ''AdvancedPurifierFanWithHumidification''
                else ''AdvancedPurifierFan''),
      (\<lambda>caps. HEATING \<in> caps \<and> AUTO_MODE \<in> caps,
         \<lambda>caps. ''BasicPurifierFanWithHeating''),
      (\<lambda>caps. HUMIDIFICATION \<in> caps \<and> AUTO_MODE \<in> caps,
         \<lambda>caps. ''BasicPurifierFanWithHumidification''),
      (\<lambda>caps. AUTO_MODE \<in> caps \<or> FILTER_MONITORING \<in> caps,
         \<lambda>caps. if ANGLE_OSCILLATION \<in> caps then ''BasicPurifierFanWithOscillation''
                else ''BasicPurifierFan''),
      (\<lambda>caps. ANGLE_OSCILLATION \<in> caps,
         \<lambda>caps. ''AdvancedOscillationFan''),
      (\<lambda>caps. BASIC_FAN_CONTROL \<in> caps,
         \<lambda>caps. ''BasicFan'')]"

definition spec_hint :: "DeviceCapability set \<Rightarrow> string" where
  "spec_hint caps =
     (case find (\<lambda>rule. fst rule caps) spec_hint_rules of
        Some rule \<Rightarrow> snd rule caps
      | None \<Rightarrow> ''UnknownDevice'')"

text \<open>
  Presence as the specification states it: the key exists and its resolved value is not
  null, the resolved value of a two-element pair \<open>[previous, current]\<close> being the current
  element.
\<close>

definition spec_resolved_value :: "pyval \<Rightarrow> pyval" where
  "spec_resolved_value v = (case v of PyList [previous, current] \<Rightarrow> current | _ \<Rightarrow> v)"

definition spec_present :: "pydict \<Rightarrow> string \<Rightarrow> bool" where
  "spec_present data field =
     (case data field of None \<Rightarrow> False | Some v \<Rightarrow> spec_resolved_value v \<noteq> PyNone)"

text \<open>The prefix table of the static fallback as the specification lists it.\<close>

definition spec_prefix_table :: "(string \<times> DeviceClass) list" where
  "spec_prefix_table =
     [(''739'', DysonAdvancedOscillationFan),
      (''438'', DysonBasicPurifierFanWithOscillation),
      (''527'', DysonBasicPurifierFanWithHeating),
      (''358'', DysonBasicPurifierFanWithHumidification),
      (''664'', DysonAdvancedPurifierFan)]"

section \<open>Properties\<close>

lemmas detect_defs =
  BasicFanDetector_detect_def AdvancedOscillationDetector_detect_def
  PurificationDetector_detect_def AdvancedEnvironmentalDetector_detect_def
  HeatingDetector_detect_def HumidificationDetector_detect_def

lemmas confidence_defs =
  BasicFanDetector_get_confidence_score_def
  AdvancedOscillationDetector_get_confidence_score_def
  PurificationDetector_get_confidence_score_def
  AdvancedEnvironmentalDetector_get_confidence_score_def
  HeatingDetector_get_confidence_score_def
  HumidificationDetector_get_confidence_score_def

lemma if_add_right: "(if c then b + x else b) = b + (if c then x else (0::real))"
  by simp

lemma if_if_zero: "(if a then (if b then x else 0) else 0) = (if a \<and> b then x else (0::real))"
  by simp

lemma finite_detect: "finite (detect d st env)"
  by (cases d) (simp_all add: detect_defs Let_def)

lemma card_detect_pos: "card (detect d st env) > 0 \<longleftrightarrow> detect d st env \<noteq> {}"
  using finite_detect [of d st env] by (simp add: card_gt_0_iff)

lemma confidence_nonneg: "0 \<le> get_confidence_score d st env"
proof (cases d)
  case BasicFanDetector
  show ?thesis
    unfolding BasicFanDetector get_confidence_score.simps
      BasicFanDetector_get_confidence_score_def Let_def if_add_right
    by (intro min.boundedI add_nonneg_nonneg) simp_all
next
  case PurificationDetector
  show ?thesis
    unfolding PurificationDetector get_confidence_score.simps
      PurificationDetector_get_confidence_score_def Let_def if_add_right
    by (intro min.boundedI add_nonneg_nonneg) simp_all
qed (simp_all add: confidence_defs Let_def)

lemma fold_discover_step:
  "fold (discover_step st env) ds (rs, caps) =
     (rs @ map (result_of st env) ds, caps \<union> (\<Union>d\<in>set ds. detect d st env))"
proof (induction ds arbitrary: rs caps)
  case Nil
  show ?case by simp
next
  case (Cons d ds)
  have "discover_step st env d (rs, caps) = (rs @ [result_of st env d], caps \<union> detect d st env)"
    by (simp add: discover_step_def result_of_def Let_def card_detect_pos)
  then show ?case
    using Cons.IH [of "rs @ [result_of st env d]" "caps \<union> detect d st env"]
    by (simp add: Un_assoc)
qed

lemma fold_confidence_step:
  "fold confidence_step rs (a, b) =
     (a + (\<Sum>r\<leftarrow>rs. res_confidence r * result_weight r), b + (\<Sum>r\<leftarrow>rs. result_weight r))"
proof (induction rs arbitrary: a b)
  case Nil
  show ?case by simp
next
  case (Cons r rs)
  have "confidence_step r (a, b) = (a + res_confidence r * result_weight r, b + result_weight r)"
    by (simp add: confidence_step_def result_weight_def Let_def)
  then show ?case
    using Cons.IH [of "a + res_confidence r * result_weight r" "b + result_weight r"]
    by (simp add: add.assoc)
qed

lemma detector_weight_eq: "detector_weight name k = spec_weight name (k > 0)"
  by (simp add: detector_weight_def spec_weight_def spec_weight_table_def)

lemma detector_weight_pos: "0 < detector_weight name k"
  by (simp add: detector_weight_def)

lemma result_weight_pos: "0 < result_weight r"
  by (simp add: result_weight_def detector_weight_pos)

lemma sum_weight_pos: "rs \<noteq> [] \<Longrightarrow> 0 < (\<Sum>r\<leftarrow>rs. result_weight r)"
proof (induction rs)
  case Nil
  then show ?case by simp
next
  case (Cons r rs)
  have "0 \<le> (\<Sum>r\<leftarrow>rs. result_weight r)"
    by (rule sum_list_nonneg) (auto simp: less_imp_le [OF result_weight_pos])
  then show ?case using result_weight_pos [of r] by simp
qed

lemma discovered_caps:
  "discovered_capabilities (discover_capabilities st env) = (\<Union>d\<in>set detectors. detect d st env)"
  by (simp add: discover_capabilities_def fold_discover_step Let_def)

lemma discover_confidence:
  "confidence_score (discover_capabilities st env) =
     calculate_intelligent_confidence (map (result_of st env) detectors)
        (\<Union>d\<in>set detectors. detect d st env)"
  by (simp add: discover_capabilities_def fold_discover_step Let_def)

lemma discover_hint:
  "device_type_hint (discover_capabilities st env) =
     Some (suggest_device_type (\<Union>d\<in>set detectors. detect d st env))"
  by (simp add: discover_capabilities_def fold_discover_step Let_def)

lemma calculate_intelligent_confidence_eq:
  "calculate_intelligent_confidence rs caps =
     (if filter res_is_relevant rs = [] then 0
      else min 1 ((\<Sum>r\<leftarrow>filter res_is_relevant rs. res_confidence r * result_weight r)
                   / (\<Sum>r\<leftarrow>filter res_is_relevant rs. result_weight r)
                  + calculate_coherence_bonus caps))"
proof (cases "filter res_is_relevant rs = []")
  case True
  then show ?thesis by (simp add: calculate_intelligent_confidence_def)
next
  case False
  then have "rs \<noteq> []" by auto
  moreover have "0 < (\<Sum>r\<leftarrow>filter res_is_relevant rs. result_weight r)"
    using False by (rule sum_weight_pos)
  ultimately show ?thesis using False
    by (simp add: calculate_intelligent_confidence_def fold_confidence_step Let_def)
qed

lemma two_of_three:
  "2 \<le> card ({VOC_SENSOR, NO2_SENSOR, CO2_SENSOR} \<inter> caps) \<longleftrightarrow>
     (VOC_SENSOR \<in> caps \<and> NO2_SENSOR \<in> caps)
     \<or> (VOC_SENSOR \<in> caps \<and> CO2_SENSOR \<in> caps)
     \<or> (NO2_SENSOR \<in> caps \<and> CO2_SENSOR \<in> caps)"
  by (cases "VOC_SENSOR \<in> caps"; cases "NO2_SENSOR \<in> caps"; cases "CO2_SENSOR \<in> caps")
     (simp_all add: Int_insert_left)

lemma coherence_bonus_eq: "calculate_coherence_bonus caps = spec_bonus caps"
  unfolding calculate_coherence_bonus_def spec_bonus_def Let_def two_of_three
  by (simp add: if_add_right if_if_zero split del: if_split cong del: if_weak_cong)

lemma spec_bonus_nonneg: "0 \<le> spec_bonus caps"
  unfolding spec_bonus_def
  by (intro min.boundedI add_nonneg_nonneg) simp_all

lemma filter_relevant:
  "filter res_is_relevant (map (result_of st env) ds) =
     map (result_of st env) (filter (spec_relevant st env) ds)"
  by (induction ds) (simp_all add: result_of_def spec_relevant_def)

lemma result_weight_of:
  "result_weight (result_of st env d) = spec_detector_weight st env d"
  by (simp add: result_weight_def result_of_def spec_detector_weight_def
      detector_weight_eq card_detect_pos)

lemma res_confidence_of:
  "res_confidence (result_of st env d) = get_confidence_score d st env"
  by (simp add: result_of_def)

lemma no_relevant_no_caps:
  assumes "filter (spec_relevant st env) ds = []"
  shows "(\<Union>d\<in>set ds. detect d st env) = {}"
proof -
  from assms have "\<forall>d\<in>set ds. \<not> spec_relevant st env d"
    by (simp add: filter_empty_conv)
  then have "\<forall>d\<in>set ds. detect d st env = {}"
    by (simp add: spec_relevant_def)
  then show ?thesis by simp
qed


lemma sum_weighted_of:
  "(\<Sum>r\<leftarrow>map (result_of st env) ds. res_confidence r * result_weight r) =
     (\<Sum>d\<leftarrow>ds. get_confidence_score d st env * spec_detector_weight st env d)"
  by (induction ds) (simp_all add: result_weight_of res_confidence_of)

lemma sum_weight_of:
  "(\<Sum>r\<leftarrow>map (result_of st env) ds. result_weight r) =
     (\<Sum>d\<leftarrow>ds. spec_detector_weight st env d)"
  by (induction ds) (simp_all add: result_weight_of)

lemma discover_confidence_eq:
  "confidence_score (discover_capabilities st env) =
     (if filter (spec_relevant st env) detectors = [] then 0
      else min 1 ((\<Sum>d\<leftarrow>filter (spec_relevant st env) detectors.
                      get_confidence_score d st env * spec_detector_weight st env d)
                  / (\<Sum>d\<leftarrow>filter (spec_relevant st env) detectors.
                      spec_detector_weight st env d)
                  + spec_bonus (\<Union>d\<in>set detectors. detect d st env)))"
  unfolding discover_confidence calculate_intelligent_confidence_eq filter_relevant
    sum_weighted_of sum_weight_of coherence_bonus_eq
  by simp

lemma spec_detector_table_eq: "spec_detector_table = map spec_entry_of detectors"
  by (simp add: spec_detector_table_def detectors_def spec_entry_of_def
      spec_weight_def spec_weight_table_def)

lemma spec_entry_relevant_of:
  "spec_entry_relevant st env (spec_entry_of d) = spec_relevant st env d"
  by (simp add: spec_entry_relevant_def spec_relevant_def spec_entry_of_def)

lemma spec_entry_weight_of:
  "spec_entry_weight st env (spec_entry_of d) = spec_detector_weight st env d"
  by (simp add: spec_entry_weight_def spec_detector_weight_def spec_entry_of_def)

lemma sd_confidence_of:
  "sd_confidence (spec_entry_of d) st env = get_confidence_score d st env"
  by (simp add: spec_entry_of_def)

lemma filter_spec_entries:
  "filter (spec_entry_relevant st env) (map spec_entry_of ds) =
     map spec_entry_of (filter (spec_relevant st env) ds)"
  by (induction ds) (simp_all add: spec_entry_relevant_of)

lemma sum_entries_weighted:
  "(\<Sum>e\<leftarrow>map spec_entry_of ds. sd_confidence e st env * spec_entry_weight st env e) =
     (\<Sum>d\<leftarrow>ds. get_confidence_score d st env * spec_detector_weight st env d)"
  by (induction ds) (simp_all add: spec_entry_weight_of sd_confidence_of)

lemma sum_entries_weight:
  "(\<Sum>e\<leftarrow>map spec_entry_of ds. spec_entry_weight st env e) =
     (\<Sum>d\<leftarrow>ds. spec_detector_weight st env d)"
  by (induction ds) (simp_all add: spec_entry_weight_of)

lemma spec_base_eq:
  "spec_base st env =
     (if filter (spec_relevant st env) detectors = [] then 0
      else (\<Sum>d\<leftarrow>filter (spec_relevant st env) detectors.
               get_confidence_score d st env * spec_detector_weight st env d)
           / (\<Sum>d\<leftarrow>filter (spec_relevant st env) detectors.
               spec_detector_weight st env d))"
  unfolding spec_base_def Let_def spec_detector_table_eq filter_spec_entries
    sum_entries_weighted sum_entries_weight
  by simp

lemma spec_tags_eq: "spec_tags st env = (\<Union>d\<in>set detectors. detect d st env)"
  by (simp add: spec_tags_def detectors_def Un_assoc)

text \<open>
  Claim C3. For every pair of input maps the aggregate confidence is
  \<open>min 1.0 (base + bonus)\<close>. \<open>base\<close> is the weighted mean
  \<open>\<Sum>(confidence \<times> weight) / \<Sum>(weight)\<close> over the relevant detectors only (a detector
  is relevant when it reported a tag or a confidence above 0), taken over the six listed
  detectors with the weights BasicFan 3.0/1.0, AdvancedOscillation 2.5/0.5, Purification
  3.0/1.0, AdvancedEnvironmental 2.5/0.5, Heating 2.0/0.5 and Humidification 2.0/0.5 (found
  a tag / found none); with no relevant detector the mean is 0. \<open>bonus\<close> is the sum of
  the seven coherence rules on the union of the detected tags, capped at 0.30. A result
  under any other detector name weighs 1.0.
\<close>

theorem confidence_is_weighted_mean_plus_bonus:
  "confidence_score (discover_capabilities status_data environmental_data) =
     min 1.0 (spec_base status_data environmental_data
              + spec_bonus (spec_tags status_data environmental_data))
   \<and> detector_weight detector_name capabilities_found =
       spec_weight detector_name (capabilities_found > 0)"
proof -
  have "confidence_score (discover_capabilities status_data environmental_data) =
     min 1.0 (spec_base status_data environmental_data
              + spec_bonus (spec_tags status_data environmental_data))"
  proof (cases "filter (spec_relevant status_data environmental_data) detectors = []")
    case True
    then have "(\<Union>d\<in>set detectors. detect d status_data environmental_data) = {}"
      by (rule no_relevant_no_caps)
    moreover have "spec_bonus {} = 0"
      by (simp add: spec_bonus_def)
    ultimately show ?thesis using True
      unfolding discover_confidence_eq spec_base_eq spec_tags_eq by simp
  next
    case False
    then show ?thesis
      unfolding discover_confidence_eq spec_base_eq spec_tags_eq by simp
  qed
  then show ?thesis
    by (simp add: detector_weight_eq)
qed

lemma spec_weight_pos: "0 < spec_detector_weight st env d"
  using result_weight_pos [of "result_of st env d"] by (simp add: result_weight_of)

text \<open>
  Claim C1. For every capability set the factory's variant selection follows the
  first-match-wins priority order: (1) any of VOC_SENSOR, NO2_SENSOR, CO2_SENSOR selects
  AdvancedPurifierFan; (2) else AUTO_MODE, FILTER_MONITORING and HEATING select
  BasicPurifierFanWithHeating; (3) else AUTO_MODE, FILTER_MONITORING and HUMIDIFICATION
  select BasicPurifierFanWithHumidification; (4) else AUTO_MODE and FILTER_MONITORING
  select BasicPurifierFanWithOscillation; (5) else ANGLE_OSCILLATION without AUTO_MODE
  selects AdvancedOscillationFan; (6) else BASIC_FAN_CONTROL selects BasicFan;
  (7) otherwise there is no match.
\<close>

theorem factory_selection_priority_order:
  "map_option device_class
     (priv_create_device_from_capabilities serial credential device_type capabilities) =
   spec_select (discovered_capabilities capabilities)"
  by (simp add: priv_create_device_from_capabilities_def spec_select_def spec_select_rules_def
      has_any_capability_def has_capability_def new_device_def)

text \<open>
  Claim C2. The device-type hint is a function of the discovered capability set alone,
  evaluated in the first-match-wins order of \<open>spec_hint_rules\<close>: (1) any advanced sensor
  gives \<open>''AdvancedPurifierFanWithHeating''\<close> with HEATING, else
  \<open>''AdvancedPurifierFanWithHumidification''\<close> with HUMIDIFICATION, else
  \<open>''AdvancedPurifierFan''\<close>; (2) HEATING and AUTO_MODE; (3) HUMIDIFICATION and AUTO_MODE;
  (4) AUTO_MODE or FILTER_MONITORING, with or without ANGLE_OSCILLATION;
  (5) ANGLE_OSCILLATION; (6) BASIC_FAN_CONTROL; (7) otherwise \<open>''UnknownDevice''\<close>.
\<close>

theorem hint_priority_order:
  "suggest_device_type capabilities = spec_hint capabilities
   \<and> device_type_hint (discover_capabilities status_data environmental_data) =
       Some (spec_hint (discovered_capabilities
                (discover_capabilities status_data environmental_data)))"
proof -
  have "suggest_device_type caps = spec_hint caps" for caps
    by (simp add: suggest_device_type_def spec_hint_def spec_hint_rules_def)
  then show ?thesis
    by (simp add: discover_hint discovered_caps)
qed

text \<open>
  Claim C4. For every pair of status and environmental maps the confidence score that
  \<open>discover_capabilities\<close> returns lies in the closed interval from 0.0 to 1.0.
\<close>

theorem confidence_score_in_unit_interval:
  "0.0 \<le> confidence_score (discover_capabilities status_data environmental_data)
   \<and> confidence_score (discover_capabilities status_data environmental_data) \<le> 1.0"
proof -
  have "0 \<le> (\<Sum>d\<leftarrow>ds. get_confidence_score d status_data environmental_data
                 * spec_detector_weight status_data environmental_data d)" for ds
    by (rule sum_list_nonneg)
       (auto intro!: mult_nonneg_nonneg confidence_nonneg less_imp_le [OF spec_weight_pos])
  moreover have "0 \<le> (\<Sum>d\<leftarrow>ds. spec_detector_weight status_data environmental_data d)" for ds
    by (rule sum_list_nonneg) (auto intro!: less_imp_le [OF spec_weight_pos])
  ultimately have "0 \<le> (\<Sum>d\<leftarrow>ds. get_confidence_score d status_data environmental_data
                 * spec_detector_weight status_data environmental_data d)
          / (\<Sum>d\<leftarrow>ds. spec_detector_weight status_data environmental_data d)" for ds
    by (rule divide_nonneg_nonneg)
  then show ?thesis
    unfolding discover_confidence_eq
    using spec_bonus_nonneg [of "\<Union>d\<in>set detectors. detect d status_data environmental_data"]
    by (simp add: add_nonneg_nonneg)
qed


lemma absent_not_present:
  "dom data \<inter> F = {} \<Longrightarrow> f \<in> F \<Longrightarrow> has_field data f = False"
  by (auto simp: has_field_def split: option.splits)

lemma all_required_fields_eq:
  "all_required_fields =
     {''fpwr'', ''fnsp'', ''oson'', ''nmod'', ''nmdv'', ''sltm'',
      ''osal'', ''osau'', ''ancp'',
      ''auto'', ''cflr'', ''hflr'', ''fdir'', ''p25r'', ''p10r'', ''pm25'', ''pm10'',
      ''va10'', ''noxl'', ''co2r'', ''hact'', ''tact'',
      ''hmod'', ''hmax'',
      ''hume'', ''haut'', ''humt'', ''wath''}"
  by (simp add: all_required_fields_def detectors_def
      BasicFanDetector_get_required_fields_def
      AdvancedOscillationDetector_get_required_fields_def
      PurificationDetector_get_required_fields_def
      AdvancedEnvironmentalDetector_get_required_fields_def
      HeatingDetector_get_required_fields_def
      HumidificationDetector_get_required_fields_def insert_commute)

lemma suggest_empty: "suggest_device_type {} = ''UnknownDevice''"
  by (simp add: suggest_device_type_def)

text \<open>
  Claim C5. When neither map contains a recognized field, every detector reports no tag
  and confidence 0, and \<open>discover_capabilities\<close> returns confidence 0.0, the hint
  \<open>''UnknownDevice''\<close> and an empty capability set.
\<close>

theorem no_recognized_fields_unknown_device:
  assumes "dom status_data \<inter> all_required_fields = {}"
    and "dom environmental_data \<inter> all_required_fields = {}"
  shows "(\<forall>d. detect d status_data environmental_data = {}
             \<and> get_confidence_score d status_data environmental_data = 0.0)
    \<and> confidence_score (discover_capabilities status_data environmental_data) = 0.0
    \<and> device_type_hint (discover_capabilities status_data environmental_data)
        = Some ''UnknownDevice''
    \<and> discovered_capabilities (discover_capabilities status_data environmental_data) = {}"
proof -
  have st: "f \<in> all_required_fields \<Longrightarrow> has_field status_data f = False" for f
    using assms(1) by (rule absent_not_present)
  have env: "f \<in> all_required_fields \<Longrightarrow> has_field environmental_data f = False" for f
    using assms(2) by (rule absent_not_present)
  have none: "detect d status_data environmental_data = {}" for d
    by (cases d)
       (simp_all add: detect_defs has_fields_def Let_def st env all_required_fields_eq)
  have zero: "get_confidence_score d status_data environmental_data = 0" for d
    by (cases d)
       (simp_all add: confidence_defs has_fields_def Let_def st env all_required_fields_eq)
  have "filter (spec_relevant status_data environmental_data) detectors = []"
    by (simp add: filter_empty_conv spec_relevant_def none zero)
  then have "confidence_score (discover_capabilities status_data environmental_data) = 0"
    by (simp add: discover_confidence_eq)
  moreover have "discovered_capabilities (discover_capabilities status_data environmental_data) = {}"
    by (simp add: discovered_caps none)
  moreover have "device_type_hint (discover_capabilities status_data environmental_data)
        = Some ''UnknownDevice''"
    by (simp add: discover_hint none suggest_empty)
  ultimately show ?thesis using none zero by simp
qed

text \<open>The hypotheses of the previous theorem hold for a status map of two unrecognized fields.\<close>

theorem no_recognized_fields_unknown_device_witness:
  "dom [''rssi'' \<mapsto> PyStr ''-48'', ''ercd'' \<mapsto> PyStr ''NONE''] \<inter> all_required_fields = {}
   \<and> dom (Map.empty :: pydict) \<inter> all_required_fields = {}
   \<and> confidence_score (discover_capabilities
         [''rssi'' \<mapsto> PyStr ''-48'', ''ercd'' \<mapsto> PyStr ''NONE''] Map.empty) = 0.0
   \<and> device_type_hint (discover_capabilities
         [''rssi'' \<mapsto> PyStr ''-48'', ''ercd'' \<mapsto> PyStr ''NONE''] Map.empty)
        = Some ''UnknownDevice''
   \<and> discovered_capabilities (discover_capabilities
         [''rssi'' \<mapsto> PyStr ''-48'', ''ercd'' \<mapsto> PyStr ''NONE''] Map.empty) = {}"
proof -
  have h1: "dom [''rssi'' \<mapsto> PyStr ''-48'', ''ercd'' \<mapsto> PyStr ''NONE'']
              \<inter> all_required_fields = {}"
    by (simp add: all_required_fields_eq)
  have h2: "dom (Map.empty :: pydict) \<inter> all_required_fields = {}"
    by simp
  from no_recognized_fields_unknown_device [OF h1 h2] h1 h2 show ?thesis
    by simp
qed


text \<open>
  Claim C6 as stated fails: the detectors test the stored value, not the current element
  of a pair. A key whose value is the pair \<open>[''OFF'', null]\<close> is present for
  \<open>has_field\<close>, and not present under the specification's reading.
\<close>

theorem pair_with_null_current_is_present:
  "has_field [''oson'' \<mapsto> PyList [PyStr ''OFF'', PyNone]] ''oson''
   \<and> \<not> spec_present [''oson'' \<mapsto> PyList [PyStr ''OFF'', PyNone]] ''oson''"
  by (simp add: has_field_def spec_present_def spec_resolved_value_def)

text \<open>
  Claim C6, amended. A field counts as present iff the key exists in the map and the value
  stored under it is not null. A pair is not resolved: a key whose value is a
  \<open>[previous, current]\<close> pair is present whatever the two elements are.
\<close>

theorem has_field_raw_value_not_null:
  "(has_field data field \<longleftrightarrow> field \<in> dom data \<and> data field \<noteq> Some PyNone)
   \<and> has_field (data(field \<mapsto> PyList [previous, current])) field"
  by (auto simp add: has_field_def split: option.splits)

text \<open>
  Claim C7. When the status map and the environmental map are both absent or empty,
  \<open>create_device_from_capabilities\<close> skips discovery and is the static fallback. The
  class of the device it returns is the one the prefix table gives for the first prefix of
  the device-type string: 739 gives AdvancedOscillationFan, 438
  BasicPurifierFanWithOscillation, 527 BasicPurifierFanWithHeating, 358
  BasicPurifierFanWithHumidification, 664 AdvancedPurifierFan; the device carries the
  serial, the credential and the device type it was asked for and no discovery result. A
  device type with none of these prefixes gives no device (\<open>None\<close>), not an exception.
\<close>

theorem static_fallback_without_telemetry:
  assumes "status_data = None \<or> status_data = Some Map.empty"
    and "environmental_data = None \<or> environmental_data = Some Map.empty"
  shows "create_device_from_capabilities serial credential device_type
            status_data environmental_data
          = fallback_to_static_mapping serial credential device_type
    \<and> map_option device_class
          (create_device_from_capabilities serial credential device_type
             status_data environmental_data)
          = map_option snd
              (find (\<lambda>entry. startswith device_type (fst entry)) spec_prefix_table)
    \<and> map_option dev_serial
          (create_device_from_capabilities serial credential device_type
             status_data environmental_data)
          = map_option (\<lambda>entry. serial)
              (find (\<lambda>entry. startswith device_type (fst entry)) spec_prefix_table)
    \<and> map_option dev_credential
          (create_device_from_capabilities serial credential device_type
             status_data environmental_data)
          = map_option (\<lambda>entry. credential)
              (find (\<lambda>entry. startswith device_type (fst entry)) spec_prefix_table)
    \<and> map_option dev_device_type
          (create_device_from_capabilities serial credential device_type
             status_data environmental_data)
          = map_option (\<lambda>entry. device_type)
              (find (\<lambda>entry. startswith device_type (fst entry)) spec_prefix_table)
    \<and> map_option dev_discovered_capabilities
          (create_device_from_capabilities serial credential device_type
             status_data environmental_data)
          = map_option (\<lambda>entry. None)
              (find (\<lambda>entry. startswith device_type (fst entry)) spec_prefix_table)
    \<and> (\<not> list_ex (\<lambda>entry. startswith device_type (fst entry)) spec_prefix_table
          \<longrightarrow> create_device_from_capabilities serial credential device_type
                status_data environmental_data = None)"
proof -
  have skip: "\<not> truthy status_data \<and> \<not> truthy environmental_data"
    using assms by (auto simp add: truthy_def)
  have create: "create_device_from_capabilities serial credential device_type
            status_data environmental_data
          = fallback_to_static_mapping serial credential device_type"
    using skip by (simp add: create_device_from_capabilities_def)
  have cls: "map_option device_class (fallback_to_static_mapping serial credential device_type)
          = map_option snd
              (find (\<lambda>entry. startswith device_type (fst entry)) spec_prefix_table)"
    by (simp add: fallback_to_static_mapping_def spec_prefix_table_def new_device_def)
  have ser: "map_option dev_serial (fallback_to_static_mapping serial credential device_type)
          = map_option (\<lambda>entry. serial)
              (find (\<lambda>entry. startswith device_type (fst entry)) spec_prefix_table)"
    by (simp add: fallback_to_static_mapping_def spec_prefix_table_def new_device_def)
  have cred: "map_option dev_credential
            (fallback_to_static_mapping serial credential device_type)
          = map_option (\<lambda>entry. credential)
              (find (\<lambda>entry. startswith device_type (fst entry)) spec_prefix_table)"
    by (simp add: fallback_to_static_mapping_def spec_prefix_table_def new_device_def)
  have dt: "map_option dev_device_type
            (fallback_to_static_mapping serial credential device_type)
          = map_option (\<lambda>entry. device_type)
              (find (\<lambda>entry. startswith device_type (fst entry)) spec_prefix_table)"
    by (simp add: fallback_to_static_mapping_def spec_prefix_table_def new_device_def)
  have disc: "map_option dev_discovered_capabilities
            (fallback_to_static_mapping serial credential device_type)
          = map_option (\<lambda>entry. None)
              (find (\<lambda>entry. startswith device_type (fst entry)) spec_prefix_table)"
    by (simp add: fallback_to_static_mapping_def spec_prefix_table_def new_device_def)
  have none: "fallback_to_static_mapping serial credential device_type = None"
    if "\<not> list_ex (\<lambda>entry. startswith device_type (fst entry)) spec_prefix_table"
    using that by (simp add: fallback_to_static_mapping_def spec_prefix_table_def)
  show ?thesis
    unfolding create using cls ser cred dt disc none by simp
qed

text \<open>
  One instance for each prefix of the table, with regional suffixes, and one for a device
  type with no known prefix.
\<close>

theorem static_fallback_without_telemetry_witness:
  "map_option device_class
     (create_device_from_capabilities ''VS9-EU-NAB0000A'' ''secret'' ''739'' None None)
     = Some DysonAdvancedOscillationFan
   \<and> map_option device_class
     (create_device_from_capabilities ''VS9-EU-NAB0000A'' ''secret'' ''438K'' None (Some Map.empty))
     = Some DysonBasicPurifierFanWithOscillation
   \<and> map_option device_class
     (create_device_from_capabilities ''VS9-EU-NAB0000A'' ''secret'' ''527E'' (Some Map.empty) None)
     = Some DysonBasicPurifierFanWithHeating
   \<and> map_option device_class
     (create_device_from_capabilities ''VS9-EU-NAB0000A'' ''secret'' ''358'' None None)
     = Some DysonBasicPurifierFanWithHumidification
   \<and> map_option device_class
     (create_device_from_capabilities ''VS9-EU-NAB0000A'' ''secret'' ''664''
        (Some Map.empty) (Some Map.empty))
     = Some DysonAdvancedPurifierFan
   \<and> map_option dev_serial
     (create_device_from_capabilities ''VS9-EU-NAB0000A'' ''secret'' ''438K'' None (Some Map.empty))
     = Some ''VS9-EU-NAB0000A''
   \<and> create_device_from_capabilities ''VS9-EU-NAB0000A'' ''secret'' ''999'' (Some Map.empty) None
     = None"
proof -
  have n: "(None :: pydict option) = None \<or> (None :: pydict option) = Some Map.empty"
    by simp
  have e: "Some (Map.empty :: pydict) = None \<or> Some (Map.empty :: pydict) = Some Map.empty"
    by simp
  note table = spec_prefix_table_def startswith_def
  note cls = conjunct2 [THEN conjunct1]
  note ser = conjunct2 [THEN conjunct2, THEN conjunct1]
  note last = conjunct2 [THEN conjunct2, THEN conjunct2, THEN conjunct2, THEN conjunct2,
    THEN conjunct2]
  have "map_option device_class
     (create_device_from_capabilities ''VS9-EU-NAB0000A'' ''secret'' ''739'' None None)
     = Some DysonAdvancedOscillationFan"
    using static_fallback_without_telemetry
      [OF n n, of "''VS9-EU-NAB0000A''" "''secret''" "''739''", THEN cls]
    by (simp add: table)
  moreover have "map_option device_class
     (create_device_from_capabilities ''VS9-EU-NAB0000A'' ''secret'' ''438K'' None (Some Map.empty))
     = Some DysonBasicPurifierFanWithOscillation"
    using static_fallback_without_telemetry
      [OF n e, of "''VS9-EU-NAB0000A''" "''secret''" "''438K''", THEN cls]
    by (simp add: table)
  moreover have "map_option device_class
     (create_device_from_capabilities ''VS9-EU-NAB0000A'' ''secret'' ''527E'' (Some Map.empty) None)
     = Some DysonBasicPurifierFanWithHeating"
    using static_fallback_without_telemetry
      [OF e n, of "''VS9-EU-NAB0000A''" "''secret''" "''527E''", THEN cls]
    by (simp add: table)
  moreover have "map_option device_class
     (create_device_from_capabilities ''VS9-EU-NAB0000A'' ''secret'' ''358'' None None)
     = Some DysonBasicPurifierFanWithHumidification"
    using static_fallback_without_telemetry
      [OF n n, of "''VS9-EU-NAB0000A''" "''secret''" "''358''", THEN cls]
    by (simp add: table)
  moreover have "map_option device_class
     (create_device_from_capabilities ''VS9-EU-NAB0000A'' ''secret'' ''664''
        (Some Map.empty) (Some Map.empty))
     = Some DysonAdvancedPurifierFan"
    using static_fallback_without_telemetry
      [OF e e, of "''VS9-EU-NAB0000A''" "''secret''" "''664''", THEN cls]
    by (simp add: table)
  moreover have "map_option dev_serial
     (create_device_from_capabilities ''VS9-EU-NAB0000A'' ''secret'' ''438K'' None (Some Map.empty))
     = Some ''VS9-EU-NAB0000A''"
    using static_fallback_without_telemetry
      [OF n e, of "''VS9-EU-NAB0000A''" "''secret''" "''438K''", THEN ser]
    by (simp add: table)
  moreover have "create_device_from_capabilities ''VS9-EU-NAB0000A'' ''secret'' ''999''
      (Some Map.empty) None = None"
    using static_fallback_without_telemetry
      [OF e n, of "''VS9-EU-NAB0000A''" "''secret''" "''999''", THEN last]
    by (simp add: table)
  ultimately show ?thesis
    by (intro conjI)
qed

text \<open>
  Claim C8. The confidence of the AdvancedOscillation detector is 0.95 when \<open>osal\<close> and
  \<open>osau\<close> are both present in the status map, 0.5 when exactly one of them is, and 0.0
  otherwise; the confidence of the AdvancedEnvironmental detector is the number of the
  fields \<open>va10\<close>, \<open>noxl\<close>, \<open>co2r\<close> present in the environmental map, divided by 3.
\<close>

theorem oscillation_and_environmental_confidence:
  "AdvancedOscillationDetector_get_confidence_score status_data environmental_data =
     (if has_field status_data ''osal'' \<and> has_field status_data ''osau'' then 0.95
      else if has_field status_data ''osal'' \<noteq> has_field status_data ''osau'' then 0.5
      else 0.0)
   \<and> AdvancedEnvironmentalDetector_get_confidence_score status_data environmental_data =
      real (card {f \<in> {''va10'', ''noxl'', ''co2r''}. has_field environmental_data f}) / 3"
proof -
  let ?present = "filter (has_field environmental_data) [''va10'', ''noxl'', ''co2r'']"
  have "distinct ?present"
    by simp
  then have "card (set ?present) = length ?present"
    by (rule distinct_card)
  moreover have "set ?present = {f \<in> {''va10'', ''noxl'', ''co2r''}. has_field environmental_data f}"
    by auto
  ultimately have "card {f \<in> {''va10'', ''noxl'', ''co2r''}. has_field environmental_data f}
      = length ?present"
    by simp
  then show ?thesis
    by (simp add: AdvancedOscillationDetector_get_confidence_score_def
        AdvancedEnvironmentalDetector_get_confidence_score_def has_fields_def Let_def)
qed

lemma has_field_upd: "has_field (m(k \<mapsto> v)) f = (if f = k then v \<noteq> PyNone else has_field m f)"
  by (simp add: has_field_def)

lemma has_field_empty: "has_field Map.empty f = False"
  by (simp add: has_field_def)

lemmas eval_defs =
  discover_capabilities_def detectors_def discover_step_def detect_defs confidence_defs
  has_field_upd has_field_empty has_fields_def Let_def

text \<open>
  Claim C9. The hint classifier and the factory's selection diverge: on the capability set
  of ANGLE_OSCILLATION and FILTER_MONITORING (without AUTO_MODE) the hint is
  \<open>''BasicPurifierFanWithOscillation''\<close> while the factory selects the
  AdvancedOscillationFan class. A status map with \<open>osal\<close>, \<open>osau\<close> and \<open>cflr\<close> yields
  this capability set.
\<close>

theorem hint_and_factory_diverge:
  "suggest_device_type {ANGLE_OSCILLATION, FILTER_MONITORING} = ''BasicPurifierFanWithOscillation''
   \<and> map_option device_class
        (priv_create_device_from_capabilities serial credential device_type
           (capabilities\<lparr>discovered_capabilities := {ANGLE_OSCILLATION, FILTER_MONITORING}\<rparr>))
       = Some DysonAdvancedOscillationFan
   \<and> discovered_capabilities (discover_capabilities
         [''osal'' \<mapsto> PyStr ''0045'', ''osau'' \<mapsto> PyStr ''0315'', ''cflr'' \<mapsto> PyStr ''0080'']
         Map.empty) = {ANGLE_OSCILLATION, FILTER_MONITORING}"
  by (simp add: suggest_device_type_def priv_create_device_from_capabilities_def
      has_any_capability_def has_capability_def new_device_def eval_defs insert_commute)

text \<open>
  Claim C10. A maximal confidence does not imply a recognized device: for the status map
  holding only \<open>hume\<close> and an empty environmental map the confidence score is 1.0, the
  hint is \<open>''UnknownDevice''\<close> and the factory's selection finds no match.
\<close>

theorem full_confidence_unknown_device:
  "confidence_score (discover_capabilities [''hume'' \<mapsto> PyStr ''OFF''] Map.empty) = 1.0
   \<and> device_type_hint (discover_capabilities [''hume'' \<mapsto> PyStr ''OFF''] Map.empty)
       = Some ''UnknownDevice''
   \<and> priv_create_device_from_capabilities serial credential device_type
       (discover_capabilities [''hume'' \<mapsto> PyStr ''OFF''] Map.empty) = None"
  by (simp add: eval_defs calculate_intelligent_confidence_def confidence_step_def
      detector_weight_def calculate_coherence_bonus_def suggest_device_type_def
      priv_create_device_from_capabilities_def has_capability_def has_any_capability_def)

end
